theory Spec2Isabelle
  imports Main "HOL-Library.Sublist"
begin

section \<open>Data model of \<open>imscc.go\<close>\<close>

text \<open>
  The manifest types live in package \<open>types\<close>, generated from sample XML documents; only
  \<open>WebLink\<close> is part of the sources at hand. The fields below are the ones \<open>imscc.go\<close>
  reads. A Go \<open>string\<close> is a byte sequence, here a \<open>string\<close>; a nil slice and an empty
  slice are both the empty list.
\<close>

type_synonym bytes = string

text \<open>\<open>types.Item\<close>: a node of the organization tree, with its child items.\<close>

datatype Item = Item
  (Item_Identifier: string)
  (Identifierref: string)
  (Item_Title: string)
  (Item_Item: "Item list")

text \<open>The zero value \<open>types.Item{}\<close> of \<open>var item types.Item\<close>.\<close>

definition zero_Item :: Item where
  "zero_Item = Item [] [] [] []"

text \<open>A \<open><file>\<close> child of a resource and \<open>types.Resource\<close> itself.\<close>

record ResFile =
  File_Href :: string

record Resource =
  Identifier :: string
  Type :: string
  Href :: string
  File :: "ResFile list"

definition zero_Resource :: Resource where
  "zero_Resource = \<lparr>Identifier = [], Type = [], Href = [], File = []\<rparr>"

text \<open>
  \<open>types.Manifest\<close>: \<open>Title\<close> stands for \<open>Metadata.Lom.General.Title.String.Text\<close>,
  \<open>Organization_Item\<close> for the root item \<open>Organizations.Organization.Item\<close> and
  \<open>Resources_Resource\<close> for the catalog \<open>Resources.Resource\<close>.
\<close>

record Manifest =
  Title :: string
  Organization_Item :: Item
  Resources_Resource :: "Resource list"

definition zero_Manifest :: Manifest where
  "zero_Manifest = \<lparr>Title = [], Organization_Item = zero_Item, Resources_Resource = []\<rparr>"

text \<open>
  The decoded documents. \<open>XMLName\<close> is \<open>XMLName.Local\<close>, the name of the root element the
  decoder met; the remaining fields are not read by \<open>imscc.go\<close> and are kept as one text.
\<close>

record WebLink =
  WebLink_XMLName :: string
  WebLink_Title :: string
  URL_Href :: string

record Topic =
  Topic_XMLName :: string
  Topic_Text :: string

record Assignment =
  Assignment_XMLName :: string
  Assignment_Text :: string

record Questestinterop =
  Questestinterop_XMLName :: string
  Questestinterop_Text :: string

record CartridgeBasicltiLink =
  CartridgeBasicltiLink_XMLName :: string
  CartridgeBasicltiLink_Text :: string

text \<open>
  Errors. \<open>Errorf\<close> is the value of \<open>fmt.Errorf\<close> with its formatted message; the other
  constructors wrap what the archive reader, \<open>io.ReadAll\<close> and \<open>zip.OpenReader\<close> hand back.
\<close>

datatype error =
    Errorf string
  | OpenError string
  | ReadError string
  | OpenReaderError string

text \<open>
  An opened archive entry (\<open>fs.File\<close>) carries what \<open>io.ReadAll\<close> yields on it. The
  \<open>zip.Reader\<close> is the list of its entry names (\<open>Reader.File[i].Name\<close>) and its \<open>Open\<close>
  method.
\<close>

datatype fs_File = fs_File (contents: "string + bytes")

definition io_ReadAll :: "fs_File \<Rightarrow> string + bytes" where
  "io_ReadAll f = contents f"

record Reader =
  Reader_File :: "string list"
  Open :: "string \<Rightarrow> string + fs_File"

record IMSCC =
  IMSCC_Reader :: Reader
  Path :: string
  manifest :: Manifest

text \<open>
  \<open>xml.Unmarshal(bytes, &v)\<close> on a zero-valued \<open>v\<close>, one decoder per target type: the value
  left in \<open>v\<close> and the error, if any. \<open>OpenReader\<close> is \<open>zip.OpenReader\<close>.
\<close>

record codec =
  Unmarshal_Manifest :: "bytes \<Rightarrow> Manifest \<times> string option"
  Unmarshal_Topic :: "bytes \<Rightarrow> Topic \<times> string option"
  Unmarshal_WebLink :: "bytes \<Rightarrow> WebLink \<times> string option"
  Unmarshal_Assignment :: "bytes \<Rightarrow> Assignment \<times> string option"
  Unmarshal_Questestinterop :: "bytes \<Rightarrow> Questestinterop \<times> string option"
  Unmarshal_CartridgeBasicltiLink :: "bytes \<Rightarrow> CartridgeBasicltiLink \<times> string option"
  OpenReader :: "string \<Rightarrow> string + Reader"

text \<open>The \<open>interface{}\<close> that \<open>Find\<close> returns holds one of these.\<close>

datatype found =
    FResource Resource
  | FTopic Topic
  | FWebLink WebLink
  | FAssignment Assignment
  | FQuestestinterop Questestinterop
  | FCartridgeBasicltiLink CartridgeBasicltiLink

section \<open>\<open>Find\<close>\<close>

text \<open>
  The loop \<open>for _, f := range r.File { path = f.Href }\<close>: every file overwrites \<open>path\<close>.
\<close>

fun file_path_loop :: "string \<Rightarrow> ResFile list \<Rightarrow> string" where
  "file_path_loop path [] = path"
| "file_path_loop path (f # fs) = file_path_loop (File_Href f) fs"

definition backing_path :: "Resource \<Rightarrow> string" where
  "backing_path r = (if Href r \<noteq> [] then Href r else file_path_loop [] (File r))"

definition topic_types :: "string list" where
  "topic_types = [''imsdt_xmlv1p0'', ''imsdt_xmlv1p1'', ''imsdt_xmlv1p2'', ''imsdt_xmlv1p3'']"

definition weblink_types :: "string list" where
  "weblink_types = [''imswl_xmlv1p0'', ''imswl_xmlv1p1'', ''imswl_xmlv1p2'', ''imswl_xmlv1p3'']"

definition assignment_types :: "string list" where
  "assignment_types = [''assignment_xmlv1p0'', ''assignment_xmlv1p1'', ''assignment_xmlv1p2'',
     ''assignment_xmlv1p3'']"

definition qti_types :: "string list" where
  "qti_types = [''imsqti_xmlv1p2/imscc_xmlv1p1/assessment'',
     ''imsqti_xmlv1p2/imscc_xmlv1p2/assessment'', ''imsqti_xmlv1p2/imscc_xmlv1p3/assessment'']"

definition lti_types :: "string list" where
  "lti_types = [''imsbasiclti_xmlv1p0'', ''imsbasiclti_xmlv1p1'', ''imsbasiclti_xmlv1p2'']"

definition associatedcontent_types :: "string list" where
  "associatedcontent_types = [''associatedcontent/imscc_xmlv1p0/learning-application-resource'',
     ''associatedcontent/imscc_xmlv1p1/learning-application-resource'',
     ''associatedcontent/imscc_xmlv1p2/learning-application-resource'',
     ''associatedcontent/imscc_xmlv1p3/learning-application-resource'']"

text \<open>The type tags \<open>Find\<close> decodes into a typed document.\<close>

definition decoded_types :: "string list" where
  "decoded_types = topic_types @ weblink_types @ assignment_types @ qti_types @ lti_types"

text \<open>The \<open>switch r.Type\<close> of \<open>Find\<close>, on the bytes read from the backing file.\<close>

definition Find_switch :: "codec \<Rightarrow> Resource \<Rightarrow> bytes \<Rightarrow> found \<times> error option" where
  "Find_switch cd r bs =
     (if Type r \<in> set topic_types then (FTopic (fst (Unmarshal_Topic cd bs)), None)
      else if Type r = ''webcontent'' then (FResource r, None)
      else if Type r \<in> set weblink_types then (FWebLink (fst (Unmarshal_WebLink cd bs)), None)
      else if Type r \<in> set assignment_types then
        (FAssignment (fst (Unmarshal_Assignment cd bs)), None)
      else if Type r \<in> set qti_types then
        (FQuestestinterop (fst (Unmarshal_Questestinterop cd bs)), None)
      else if Type r \<in> set lti_types then
        (FCartridgeBasicltiLink (fst (Unmarshal_CartridgeBasicltiLink cd bs)), None)
      else if Type r \<in> set associatedcontent_types then (FResource r, None)
      else (FResource r, Some (Errorf (''no matching type found: '' @ Type r))))"

text \<open>The body of \<open>Find\<close>'s loop for the resource whose identifier matched.\<close>

definition Find_resource :: "codec \<Rightarrow> IMSCC \<Rightarrow> Resource \<Rightarrow> found \<times> error option" where
  "Find_resource cd cc r =
     (let path = backing_path r in
      if path = [] then (FResource r, None)
      else case Open (IMSCC_Reader cc) path of
             Inl e \<Rightarrow> (FResource r, Some (OpenError e))
           | Inr file \<Rightarrow>
               (case io_ReadAll file of
                  Inl e \<Rightarrow> (FResource r, Some (ReadError e))
                | Inr bs \<Rightarrow> Find_switch cd r bs))"

fun Find_loop :: "codec \<Rightarrow> IMSCC \<Rightarrow> string \<Rightarrow> Resource list \<Rightarrow> found \<times> error option" where
  "Find_loop cd cc ident [] =
     (FResource zero_Resource, Some (Errorf (''could not find resource with id: '' @ ident)))"
| "Find_loop cd cc ident (r # rs) =
     (if Identifier r = ident then Find_resource cd cc r else Find_loop cd cc ident rs)"

definition Find :: "codec \<Rightarrow> IMSCC \<Rightarrow> string \<Rightarrow> found \<times> error option" where
  "Find cd cc ident = Find_loop cd cc ident (Resources_Resource (manifest cc))"

text \<open>The error \<open>Find\<close> builds after its loop: no resource has the identifier.\<close>

fun is_resource_not_found :: "error option \<Rightarrow> bool" where
  "is_resource_not_found (Some (Errorf m)) = prefix ''could not find resource with id: '' m"
| "is_resource_not_found _ = False"

section \<open>\<open>FindFile\<close>\<close>

text \<open>
  \<open>r.File[0]\<close> on an empty slice is a run-time panic (index out of range), which is neither
  of the two return values: the outcome is a panic or the returned pair.
\<close>

datatype 'a outcome = Panic string | Return 'a

fun FindFile_loop :: "IMSCC \<Rightarrow> string \<Rightarrow> Resource list \<Rightarrow> (fs_File option \<times> error option) outcome"
  where
  "FindFile_loop cc ident [] =
     Return (None, Some (Errorf (''couldn't find file for id '' @ ident)))"
| "FindFile_loop cc ident (r # rs) =
     (if Identifier r = ident then
        (case File r of
           [] \<Rightarrow> Panic ''index out of range [0] with length 0''
         | f0 # _ \<Rightarrow>
             (case Open (IMSCC_Reader cc) (File_Href f0) of
                Inl e \<Rightarrow> Return (None, Some (OpenError e))
              | Inr f \<Rightarrow> Return (Some f, None)))
      else FindFile_loop cc ident rs)"

definition FindFile :: "IMSCC \<Rightarrow> string \<Rightarrow> (fs_File option \<times> error option) outcome" where
  "FindFile cc ident = FindFile_loop cc ident (Resources_Resource (manifest cc))"

section \<open>\<open>Items\<close> and \<open>traverseItems\<close>\<close>

text \<open>\<open>strings.Contains(s, substr)\<close>: \<open>substr\<close> occurs in \<open>s\<close> as a contiguous run.\<close>

fun strings_Contains :: "string \<Rightarrow> string \<Rightarrow> bool" where
  "strings_Contains [] substr = (substr = [])"
| "strings_Contains (c # s) substr = (prefix substr (c # s) \<or> strings_Contains s substr)"

datatype FullItem = FullItem
  (Resources: "Resource list")
  (FullItem_Item: Item)
  (Children: "FullItem list")

text \<open>The loop over the catalog in \<open>traverseItems\<close>, appending to \<open>f.Resources\<close>.\<close>

fun append_referring :: "string \<Rightarrow> Resource list \<Rightarrow> Resource list \<Rightarrow> Resource list" where
  "append_referring ref acc [] = acc"
| "append_referring ref acc (r # rs) =
     append_referring ref (if strings_Contains (Identifier r) ref then acc @ [r] else acc) rs"

fun traverseItems :: "IMSCC \<Rightarrow> Item \<Rightarrow> FullItem \<times> error option"
  and traverse_children :: "IMSCC \<Rightarrow> FullItem \<Rightarrow> Item list \<Rightarrow> FullItem \<times> error option"
  where
  "traverseItems cc (Item i ref t cs) =
     traverse_children cc
       (FullItem
          (if ref \<noteq> [] then append_referring ref [] (Resources_Resource (manifest cc)) else [])
          (Item i ref t cs) [])
       cs"
| "traverse_children cc f [] = (f, None)"
| "traverse_children cc f (i # is) =
     (case traverseItems cc i of
        (child, Some e) \<Rightarrow> (f, None)
      | (child, None) \<Rightarrow>
          traverse_children cc (FullItem (Resources f) (FullItem_Item f) (Children f @ [child])) is)"

fun Items_loop :: "IMSCC \<Rightarrow> FullItem list \<Rightarrow> Item list \<Rightarrow> FullItem list \<times> error option" where
  "Items_loop cc items [] = (items, None)"
| "Items_loop cc items (i # is) =
     (case traverseItems cc i of
        (full, Some e) \<Rightarrow> (items, Some e)
      | (full, None) \<Rightarrow> Items_loop cc (items @ [full]) is)"

definition Items :: "IMSCC \<Rightarrow> FullItem list \<times> error option" where
  "Items cc = Items_loop cc [] (Item_Item (Organization_Item (manifest cc)))"

text \<open>Every FullItem of a tree: the node itself and the nodes below it.\<close>

fun full_nodes :: "FullItem \<Rightarrow> FullItem list" where
  "full_nodes (FullItem rs it cs) = FullItem rs it cs # concat (map full_nodes cs)"

section \<open>\<open>FindItem\<close> and \<open>Resources\<close>\<close>

text \<open>
  \<open>findItem\<close>: the state of the loop is the pair \<open>(item, err)\<close>; a recursive call starts from
  the zero item and the nil error and its result overwrites the pair.
\<close>

fun findItem_loop :: "Item \<times> error option \<Rightarrow> Item list \<Rightarrow> string \<Rightarrow> Item \<times> error option" where
  "findItem_loop st [] ident = st"
| "findItem_loop st (Item i ref t cs # its) ident =
     (if ref = ident then (Item i ref t cs, None)
      else findItem_loop
             (if length cs > 0 then findItem_loop (zero_Item, None) cs ident else st) its ident)"

definition findItem :: "Item list \<Rightarrow> string \<Rightarrow> Item \<times> error option" where
  "findItem items ident = findItem_loop (zero_Item, None) items ident"

fun FindItem_loop :: "Item \<times> error option \<Rightarrow> Item list \<Rightarrow> string \<Rightarrow> Item \<times> error option" where
  "FindItem_loop st [] ident = st"
| "FindItem_loop st (i # is) ident =
     (case findItem (Item_Item i) ident of
        (item, Some e) \<Rightarrow> (item, None)
      | (item, None) \<Rightarrow>
          if Identifierref item = ident then (item, None)
          else FindItem_loop (item, None) is ident)"

definition FindItem :: "IMSCC \<Rightarrow> string \<Rightarrow> Item \<times> error option" where
  "FindItem cc ident =
     FindItem_loop (zero_Item, None) (Item_Item (Organization_Item (manifest cc))) ident"

record FullResource =
  FullResource_Resource :: found
  FullResource_Item :: Item

fun Resources_loop ::
  "codec \<Rightarrow> IMSCC \<Rightarrow> FullResource list \<Rightarrow> Resource list \<Rightarrow> FullResource list \<times> error option"
  where
  "Resources_loop cd cc resources [] = (resources, None)"
| "Resources_loop cd cc resources (r # rs) =
     (case Find cd cc (Identifier r) of
        (found, Some e) \<Rightarrow> (resources, Some e)
      | (found, None) \<Rightarrow>
          (case FindItem cc (Identifier r) of
             (item, Some e) \<Rightarrow> (resources, Some e)
           | (item, None) \<Rightarrow>
               Resources_loop cd cc
                 (resources @ [\<lparr>FullResource_Resource = found, FullResource_Item = item\<rparr>]) rs))"

definition Resources_all :: "codec \<Rightarrow> IMSCC \<Rightarrow> FullResource list \<times> error option" where
  "Resources_all cd cc = Resources_loop cd cc [] (Resources_Resource (manifest cc))"

text \<open>Every item of a tree, and the items strictly below the root's immediate children.\<close>

fun item_nodes :: "Item \<Rightarrow> Item list" where
  "item_nodes (Item i ref t cs) = Item i ref t cs # concat (map item_nodes cs)"

definition compared_items :: "IMSCC \<Rightarrow> Item list" where
  "compared_items cc =
     concat (map (\<lambda>i. concat (map item_nodes (Item_Item i)))
       (Item_Item (Organization_Item (manifest cc))))"

section \<open>The per-family listers\<close>

text \<open>
  \<open>regexp.Compile(pattern)\<close> followed by \<open>re.Find\<close>: the patterns the listers pass are a
  literal followed by \<open>\d\<close>. The matcher reads a backslash followed by \<open>d\<close> as one ASCII
  digit and every other character as itself; \<open>re.Find\<close> is not nil when the pattern matches at
  some position of the text. These patterns always compile, so the error is nil.
\<close>

definition is_digit :: "char \<Rightarrow> bool" where
  "is_digit c = (c \<in> set ''0123456789'')"

fun match_here :: "string \<Rightarrow> string \<Rightarrow> bool" where
  "match_here [] s = True"
| "match_here (p # q # ps) s =
     (if p = CHR 0x5C \<and> q = CHR ''d'' then
        (case s of [] \<Rightarrow> False | c # cs \<Rightarrow> is_digit c \<and> match_here ps cs)
      else (case s of [] \<Rightarrow> False | c # cs \<Rightarrow> c = p \<and> match_here (q # ps) cs))"
| "match_here [p] s = (case s of [] \<Rightarrow> False | c # cs \<Rightarrow> c = p)"

fun regexp_Find :: "string \<Rightarrow> string \<Rightarrow> bool" where
  "regexp_Find pat [] = match_here pat []"
| "regexp_Find pat (c # s) = (match_here pat (c # s) \<or> regexp_Find pat s)"

fun append_hrefs :: "string list \<Rightarrow> ResFile list \<Rightarrow> string list" where
  "append_hrefs paths [] = paths"
| "append_hrefs paths (f # fs) = append_hrefs (paths @ [File_Href f]) fs"

fun findResources_loop :: "string \<Rightarrow> string list \<Rightarrow> Resource list \<Rightarrow> string list" where
  "findResources_loop pat paths [] = paths"
| "findResources_loop pat paths (r # rs) =
     findResources_loop pat
       (if regexp_Find pat (Type r) then append_hrefs paths (File r) else paths) rs"

definition findResourcesByType :: "IMSCC \<Rightarrow> string \<Rightarrow> string list \<times> error option" where
  "findResourcesByType cc pat =
     (findResources_loop pat [] (Resources_Resource (manifest cc)), None)"

text \<open>
  The five listers share one loop: open the path, read it, decode it, and append the document
  when \<open>keep\<close> accepts it. \<open>Assignments\<close> and \<open>QTIs\<close> test the root element name;
  \<open>Topics\<close>, \<open>Weblinks\<close> and \<open>LTIs\<close> append every document.
\<close>

fun lister_loop ::
  "IMSCC \<Rightarrow> (bytes \<Rightarrow> 'd \<times> string option) \<Rightarrow> ('d \<Rightarrow> bool) \<Rightarrow> 'd list \<Rightarrow> string list \<Rightarrow>
   'd list \<times> error option" where
  "lister_loop cc dec keep docs [] = (docs, None)"
| "lister_loop cc dec keep docs (p # ps) =
     (case Open (IMSCC_Reader cc) p of
        Inl e \<Rightarrow> (docs, Some (OpenError e))
      | Inr file \<Rightarrow>
          (case io_ReadAll file of
             Inl e \<Rightarrow> (docs, Some (ReadError e))
           | Inr bs \<Rightarrow>
               lister_loop cc dec keep
                 (if keep (fst (dec bs)) then docs @ [fst (dec bs)] else docs) ps))"

definition lister ::
  "IMSCC \<Rightarrow> string \<Rightarrow> (bytes \<Rightarrow> 'd \<times> string option) \<Rightarrow> ('d \<Rightarrow> bool) \<Rightarrow> 'd list \<times> error option"
  where
  "lister cc pat dec keep =
     (case findResourcesByType cc pat of
        (paths, Some e) \<Rightarrow> ([], Some e)
      | (paths, None) \<Rightarrow> lister_loop cc dec keep [] paths)"

definition digit_class :: string where
  "digit_class = [CHR 0x5C, CHR ''d'']"

definition Assignments :: "codec \<Rightarrow> IMSCC \<Rightarrow> Assignment list \<times> error option" where
  "Assignments cd cc =
     lister cc (''assignment_xmlv1p'' @ digit_class) (Unmarshal_Assignment cd)
       (\<lambda>a. Assignment_XMLName a = ''assignment'')"

definition LTIs :: "codec \<Rightarrow> IMSCC \<Rightarrow> CartridgeBasicltiLink list \<times> error option" where
  "LTIs cd cc =
     lister cc (''imsbasiclti_xmlv1p'' @ digit_class) (Unmarshal_CartridgeBasicltiLink cd)
       (\<lambda>l. True)"

definition QTIs :: "codec \<Rightarrow> IMSCC \<Rightarrow> Questestinterop list \<times> error option" where
  "QTIs cd cc =
     lister cc (''imsqti_xmlv1p'' @ digit_class) (Unmarshal_Questestinterop cd)
       (\<lambda>q. Questestinterop_XMLName q = ''questestinterop'')"

definition Topics :: "codec \<Rightarrow> IMSCC \<Rightarrow> Topic list \<times> error option" where
  "Topics cd cc = lister cc (''imsdt_xmlv1p'' @ digit_class) (Unmarshal_Topic cd) (\<lambda>t. True)"

definition Weblinks :: "codec \<Rightarrow> IMSCC \<Rightarrow> WebLink list \<times> error option" where
  "Weblinks cd cc = lister cc (''imswl_xmlv1p'' @ digit_class) (Unmarshal_WebLink cd) (\<lambda>w. True)"

section \<open>\<open>parseManifest\<close> and \<open>Load\<close>\<close>

text \<open>
  The search for the manifest entry: \<open>path\<close> stays empty when no entry name contains
  \<open>imsmanifest.xml\<close>. The result of \<open>xml.Unmarshal\<close> is not looked at.
\<close>

fun manifest_path :: "string list \<Rightarrow> string" where
  "manifest_path [] = []"
| "manifest_path (n # ns) =
     (if strings_Contains n ''imsmanifest.xml'' then n else manifest_path ns)"

definition parseManifest :: "codec \<Rightarrow> IMSCC \<Rightarrow> Manifest \<times> error option" where
  "parseManifest cd cc =
     (case Open (IMSCC_Reader cc) (manifest_path (Reader_File (IMSCC_Reader cc))) of
        Inl e \<Rightarrow> (zero_Manifest, Some (OpenError e))
      | Inr file \<Rightarrow>
          (case io_ReadAll file of
             Inl e \<Rightarrow> (zero_Manifest, Some (ReadError e))
           | Inr bs \<Rightarrow> (fst (Unmarshal_Manifest cd bs), None)))"

definition zero_Reader :: Reader where
  "zero_Reader = \<lparr>Reader_File = [], Open = (\<lambda>n. Inl ''file does not exist'')\<rparr>"

definition zero_IMSCC :: IMSCC where
  "zero_IMSCC = \<lparr>IMSCC_Reader = zero_Reader, Path = [], manifest = zero_Manifest\<rparr>"

definition Load :: "codec \<Rightarrow> string \<Rightarrow> IMSCC \<times> error option" where
  "Load cd path =
     (case OpenReader cd path of
        Inl e \<Rightarrow> (zero_IMSCC, Some (OpenReaderError e))
      | Inr r \<Rightarrow>
          (let cc = \<lparr>IMSCC_Reader = r, Path = path, manifest = zero_Manifest\<rparr>;
               res = parseManifest cd cc
           in (cc\<lparr>manifest := fst res\<rparr>, snd res)))"

section \<open>Closed forms used in the proofs\<close>

text \<open>
  What \<open>traverseItems\<close> computes, written without the loops and the error value, and the
  entry \<open>Resources\<close> appends for one catalog resource.
\<close>

fun full_item_of :: "IMSCC \<Rightarrow> Item \<Rightarrow> FullItem" where
  "full_item_of cc (Item i ref t cs) =
     FullItem
       (if ref = [] then []
        else filter (\<lambda>r. strings_Contains (Identifier r) ref) (Resources_Resource (manifest cc)))
       (Item i ref t cs) (map (full_item_of cc) cs)"

definition full_resource_of :: "codec \<Rightarrow> IMSCC \<Rightarrow> Resource \<Rightarrow> FullResource" where
  "full_resource_of cd cc r =
     \<lparr>FullResource_Resource = fst (Find cd cc (Identifier r)),
      FullResource_Item = fst (FindItem cc (Identifier r))\<rparr>"

section \<open>Example cartridges\<close>

text \<open>
  A small archive and decoders for it, used to run the functions above on concrete inputs.
  The decoders accept one document each and report an error on any other bytes, leaving the
  zero value.
\<close>

definition ex_entries :: "(string \<times> bytes) list" where
  "ex_entries =
     [(''course/imsmanifest.xml'', ''<manifest/>''),
      (''wl.xml'', ''<webLink/>''),
      (''wl.html'', ''<html/>''),
      (''page.html'', ''<html/>''),
      (''bad.xml'', ''<webLink'')]"

definition reader_of :: "(string \<times> bytes) list \<Rightarrow> Reader" where
  "reader_of es =
     \<lparr>Reader_File = map fst es,
      Open = (\<lambda>n. case map_of es n of
                     None \<Rightarrow> Inl ''file does not exist''
                   | Some b \<Rightarrow> Inr (fs_File (Inr b)))\<rparr>"

definition ex_items :: "Item list" where
  "ex_items =
     [Item ''top1'' ''r1'' ''Public'' [Item ''leaf1'' ''r2'' ''A link'' []],
      Item ''top2'' [] ''Locked'' []]"

definition ex_resources :: "Resource list" where
  "ex_resources =
     [\<lparr>Identifier = ''r1'', Type = ''webcontent'', Href = ''page.html'',
        File = [\<lparr>File_Href = ''page.html''\<rparr>]\<rparr>,
      \<lparr>Identifier = ''r2'', Type = ''imswl_xmlv1p1'', Href = [],
        File = [\<lparr>File_Href = ''wl.xml''\<rparr>]\<rparr>,
      \<lparr>Identifier = ''r3'', Type = ''imsbasiclti_xmlv1p0'', Href = [], File = []\<rparr>]"

definition ex_manifest :: Manifest where
  "ex_manifest =
     \<lparr>Title = ''Loaded Course'',
      Organization_Item = Item ''LearningModules'' [] [] ex_items,
      Resources_Resource = ex_resources\<rparr>"

definition ex_codec :: codec where
  "ex_codec =
     \<lparr>Unmarshal_Manifest = (\<lambda>bs. if bs = ''<manifest/>'' then (ex_manifest, None)
                                 else (zero_Manifest, Some ''decode error'')),
      Unmarshal_Topic = (\<lambda>bs. if bs = ''<topic/>''
                              then (\<lparr>Topic_XMLName = ''topic'', Topic_Text = []\<rparr>, None)
                              else (\<lparr>Topic_XMLName = [], Topic_Text = []\<rparr>,
                                    Some ''decode error'')),
      Unmarshal_WebLink = (\<lambda>bs. if bs = ''<webLink/>''
                                then (\<lparr>WebLink_XMLName = ''webLink'', WebLink_Title = [],
                                       URL_Href = []\<rparr>, None)
                                else (\<lparr>WebLink_XMLName = [], WebLink_Title = [],
                                       URL_Href = []\<rparr>,
                                      Some ''decode error'')),
      Unmarshal_Assignment = (\<lambda>bs. if bs = ''<assignment/>''
                                   then (\<lparr>Assignment_XMLName = ''assignment'',
                                          Assignment_Text = []\<rparr>, None)
                                   else (\<lparr>Assignment_XMLName = [], Assignment_Text = []\<rparr>,
                                         Some ''decode error'')),
      Unmarshal_Questestinterop = (\<lambda>bs. if bs = ''<questestinterop/>''
                                        then (\<lparr>Questestinterop_XMLName = ''questestinterop'',
                                               Questestinterop_Text = []\<rparr>, None)
                                        else (\<lparr>Questestinterop_XMLName = [],
                                               Questestinterop_Text = []\<rparr>,
                                              Some ''decode error'')),
      Unmarshal_CartridgeBasicltiLink =
        (\<lambda>bs. if bs = ''<cartridge_basiclti_link/>''
              then (\<lparr>CartridgeBasicltiLink_XMLName = ''cartridge_basiclti_link'',
                     CartridgeBasicltiLink_Text = []\<rparr>, None)
              else (\<lparr>CartridgeBasicltiLink_XMLName = [], CartridgeBasicltiLink_Text = []\<rparr>,
                    Some ''decode error'')),
      OpenReader = (\<lambda>p. if p = ''course.imscc'' then Inr (reader_of ex_entries)
                         else if p = ''empty.imscc'' then Inr (reader_of [])
                         else if p = ''broken.imscc''
                           then Inr (reader_of [(''imsmanifest.xml'', ''<manifest'')])
                         else Inl ''no such file or directory'')\<rparr>"

text \<open>A cartridge over the example archive with the given catalog and top-level items.\<close>

definition cartridge :: "Resource list \<Rightarrow> Item list \<Rightarrow> IMSCC" where
  "cartridge rs its =
     \<lparr>IMSCC_Reader = reader_of ex_entries, Path = ''course.imscc'',
      manifest = \<lparr>Title = ''Loaded Course'',
                  Organization_Item = Item ''LearningModules'' [] [] its,
                  Resources_Resource = rs\<rparr>\<rparr>"

definition ex_cc :: IMSCC where
  "ex_cc = cartridge ex_resources ex_items"

text \<open>A web link resource that lists its XML document and then a companion HTML file.\<close>

definition two_file_weblink :: Resource where
  "two_file_weblink =
     \<lparr>Identifier = ''wl'', Type = ''imswl_xmlv1p1'', Href = [],
      File = [\<lparr>File_Href = ''wl.xml''\<rparr>, \<lparr>File_Href = ''wl.html''\<rparr>]\<rparr>"

text \<open>
  A resource with a type tag of no known family, one with such a tag and no file at all,
  and a web link whose XML is cut short.
\<close>

definition unknown_type_resource :: Resource where
  "unknown_type_resource =
     \<lparr>Identifier = ''u1'', Type = ''imsfoo_xmlv1p0'', Href = ''page.html'', File = []\<rparr>"

definition fileless_resource :: Resource where
  "fileless_resource = \<lparr>Identifier = ''n1'', Type = ''imsfoo_xmlv1p0'', Href = [], File = []\<rparr>"

definition broken_weblink :: Resource where
  "broken_weblink =
     \<lparr>Identifier = ''b1'', Type = ''imswl_xmlv1p1'', Href = ''bad.xml'', File = []\<rparr>"

text \<open>A catalog whose second resource makes \<open>Find\<close> fail.\<close>

definition partly_failing :: "Resource list" where
  "partly_failing =
     [\<lparr>Identifier = ''r1'', Type = ''webcontent'', Href = ''page.html'',
        File = [\<lparr>File_Href = ''page.html''\<rparr>]\<rparr>,
      unknown_type_resource,
      \<lparr>Identifier = ''r3'', Type = ''imsbasiclti_xmlv1p0'', Href = [], File = []\<rparr>]"

section \<open>Properties of \<open>Find\<close>\<close>

lemma Find_switch_not_nf: "\<not> is_resource_not_found (snd (Find_switch cd r bs))"
  by (simp add: Find_switch_def)

lemma Find_resource_not_nf: "\<not> is_resource_not_found (snd (Find_resource cd cc r))"
  by (simp add: Find_resource_def Let_def Find_switch_not_nf split: sum.splits)

lemma Find_loop_find:
  "Find_loop cd cc ident rs =
     (case find (\<lambda>r. Identifier r = ident) rs of
        None \<Rightarrow> (FResource zero_Resource,
                 Some (Errorf (''could not find resource with id: '' @ ident)))
      | Some r \<Rightarrow> Find_resource cd cc r)"
  by (induction rs) simp_all

lemma find_None_iff_ident:
  "find (\<lambda>r. Identifier r = ident) rs = None \<longleftrightarrow> ident \<notin> Identifier ` set rs"
  by (induction rs) auto

text \<open>
  C1. \<open>Find\<close> on an identifier of the catalog never returns the error "could not find
  resource with id", and on an identifier that no catalog resource has it returns exactly that
  error (with the zero resource).
\<close>

theorem Find_not_found_iff:
  "(ident \<in> Identifier ` set (Resources_Resource (manifest cc)) \<longrightarrow>
      \<not> is_resource_not_found (snd (Find cd cc ident))) \<and>
   (ident \<notin> Identifier ` set (Resources_Resource (manifest cc)) \<longrightarrow>
      Find cd cc ident =
        (FResource zero_Resource,
         Some (Errorf (''could not find resource with id: '' @ ident))) \<and>
      is_resource_not_found (snd (Find cd cc ident)))"
proof (cases "find (\<lambda>r. Identifier r = ident) (Resources_Resource (manifest cc))")
  case None
  then show ?thesis
    using find_None_iff_ident [of ident "Resources_Resource (manifest cc)"]
    by (simp add: Find_def Find_loop_find)
next
  case (Some r)
  then show ?thesis
    using find_None_iff_ident [of ident "Resources_Resource (manifest cc)"]
    by (simp add: Find_def Find_loop_find Find_resource_not_nf)
qed

theorem Find_not_found_iff_witness:
  "\<not> is_resource_not_found (snd (Find ex_codec ex_cc ''r2'')) \<and>
   Find ex_codec ex_cc ''r9'' =
     (FResource zero_Resource, Some (Errorf ''could not find resource with id: r9'')) \<and>
   is_resource_not_found (snd (Find ex_codec ex_cc ''r9''))"
proof -
  have present: "''r2'' \<in> Identifier ` set (Resources_Resource (manifest ex_cc))"
    by (simp add: ex_cc_def cartridge_def ex_resources_def)
  have absent: "''r9'' \<notin> Identifier ` set (Resources_Resource (manifest ex_cc))"
    by (simp add: ex_cc_def cartridge_def ex_resources_def)
  show ?thesis
    using Find_not_found_iff [of "''r2''" ex_cc ex_codec]
      Find_not_found_iff [of "''r9''" ex_cc ex_codec] present absent
    by simp
qed

section \<open>Properties of \<open>Items\<close>\<close>

lemma strings_Contains_sublist: "strings_Contains s sub \<longleftrightarrow> sublist sub s"
  by (induction s) (auto simp: sublist_Cons_right)

lemma append_referring_filter:
  "append_referring ref acc rs = acc @ filter (\<lambda>r. strings_Contains (Identifier r) ref) rs"
  by (induction rs arbitrary: acc) simp_all

lemma traverse_closed_form:
  "traverseItems cc it = (full_item_of cc it, None)"
  "traverse_children cc f its =
     (FullItem (Resources f) (FullItem_Item f) (Children f @ map (full_item_of cc) its), None)"
  by (induction cc it and cc f its rule: traverseItems_traverse_children.induct)
     (simp_all add: append_referring_filter)

lemma Items_loop_closed_form:
  "Items_loop cc acc its = (acc @ map (full_item_of cc) its, None)"
  by (induction its arbitrary: acc) (simp_all add: traverse_closed_form)

lemma full_item_of_nodes:
  "f \<in> set (full_nodes (full_item_of cc it)) \<Longrightarrow>
   Resources f =
     (if Identifierref (FullItem_Item f) = [] then []
      else filter (\<lambda>r. sublist (Identifierref (FullItem_Item f)) (Identifier r))
             (Resources_Resource (manifest cc)))"
  by (induction cc it arbitrary: f rule: full_item_of.induct)
     (auto simp: strings_Contains_sublist)

text \<open>
  C2. \<open>Items\<close> never fails, its entries are the root's immediate children in document
  order, and every FullItem of the tree it returns carries exactly the catalog resources, in
  catalog order and without deduplication, whose identifier contains the item's
  \<open>identifierref\<close> as a contiguous substring; no resources when the \<open>identifierref\<close> is empty.
\<close>

theorem Items_resources:
  "snd (Items cc) = None \<and>
   map FullItem_Item (fst (Items cc)) = Item_Item (Organization_Item (manifest cc)) \<and>
   (\<forall>f \<in> set (concat (map full_nodes (fst (Items cc)))).
      Resources f =
        (if Identifierref (FullItem_Item f) = [] then []
         else filter (\<lambda>r. sublist (Identifierref (FullItem_Item f)) (Identifier r))
                (Resources_Resource (manifest cc))))"
proof -
  have items: "Items cc = (map (full_item_of cc) (Item_Item (Organization_Item (manifest cc))), None)"
    by (simp add: Items_def Items_loop_closed_form)
  have top: "FullItem_Item (full_item_of cc it) = it" for it
    by (cases it) simp
  show ?thesis
    using full_item_of_nodes by (auto simp: items top map_idI)
qed

theorem Items_resources_witness:
  "snd (Items ex_cc) = None \<and>
   Resources (FullItem [] (Item ''top2'' [] ''Locked'' []) []) = [] \<and>
   Resources (hd (fst (Items ex_cc))) = filter (\<lambda>r. sublist ''r1'' (Identifier r)) ex_resources"
proof -
  have ev: "fst (Items ex_cc) =
      [FullItem [hd ex_resources] (Item ''top1'' ''r1'' ''Public'' [Item ''leaf1'' ''r2'' ''A link'' []])
         [FullItem [ex_resources ! 1] (Item ''leaf1'' ''r2'' ''A link'' []) []],
       FullItem [] (Item ''top2'' [] ''Locked'' []) []]"
    by (simp add: Items_def ex_cc_def cartridge_def ex_items_def ex_resources_def)
  have m1: "hd (fst (Items ex_cc)) \<in> set (concat (map full_nodes (fst (Items ex_cc))))"
    by (simp add: ev)
  have m2: "FullItem [] (Item ''top2'' [] ''Locked'' []) []
      \<in> set (concat (map full_nodes (fst (Items ex_cc))))"
    by (simp add: ev)
  have rs: "Resources_Resource (manifest ex_cc) = ex_resources"
    by (simp add: ex_cc_def cartridge_def)
  from Items_resources [of ex_cc] m1 m2 show ?thesis
    by (simp add: ev rs)
qed

section \<open>Properties of \<open>FindItem\<close> and \<open>Resources\<close>\<close>

lemma findItem_loop_result:
  "findItem_loop st its ident = st \<or>
   findItem_loop st its ident = (zero_Item, None) \<or>
   (fst (findItem_loop st its ident) \<in> set (concat (map item_nodes its)) \<and>
    Identifierref (fst (findItem_loop st its ident)) = ident \<and>
    snd (findItem_loop st its ident) = None)"
proof (induction st its ident rule: findItem_loop.induct)
  case (1 st ident)
  then show ?case by simp
next
  case (2 st i ref t cs its ident)
  let ?it = "Item i ref t cs"
  show ?case
  proof (cases "ref = ident")
    case True
    then have r: "findItem_loop st (?it # its) ident = (?it, None)"
      by simp
    have "?it \<in> set (concat (map item_nodes (?it # its)))"
      by simp
    then show ?thesis
      unfolding r fst_conv snd_conv using True by simp
  next
    case False
    define S where "S = findItem_loop (zero_Item, None) cs ident"
    define st' where "st' = (if 0 < length cs then S else st)"
    define R where "R = findItem_loop st' its ident"
    have step: "findItem_loop st (?it # its) ident = R"
      using False by (simp add: R_def st'_def S_def)
    have below: "set (concat (map item_nodes cs)) \<subseteq> set (concat (map item_nodes (?it # its)))"
      and rest: "set (concat (map item_nodes its)) \<subseteq> set (concat (map item_nodes (?it # its)))"
      by auto
    have ih2: "R = st' \<or> R = (zero_Item, None) \<or>
        (fst R \<in> set (concat (map item_nodes its)) \<and> Identifierref (fst R) = ident \<and> snd R = None)"
      using "2.IH"(2) [OF False] by (simp only: R_def st'_def S_def)
    have ih1: "0 < length cs \<Longrightarrow> S = (zero_Item, None) \<or>
        (fst S \<in> set (concat (map item_nodes cs)) \<and> Identifierref (fst S) = ident \<and> snd S = None)"
      using "2.IH"(1) [OF False] by (simp only: S_def) blast
    have "R = st \<or> R = (zero_Item, None) \<or>
        (fst R \<in> set (concat (map item_nodes (?it # its))) \<and> Identifierref (fst R) = ident \<and>
         snd R = None)"
    proof (cases "0 < length cs")
      case True
      then have eq: "st' = S" by (simp add: st'_def)
      from ih2 show ?thesis
      proof (elim disjE)
        assume "R = st'"
        with eq have "R = S" by simp
        with ih1 [OF True] below show ?thesis by (auto simp only: dest: subsetD)
      next
        assume "R = (zero_Item, None)"
        then show ?thesis by (simp only: simp_thms)
      next
        assume "fst R \<in> set (concat (map item_nodes its)) \<and> Identifierref (fst R) = ident \<and>
          snd R = None"
        with rest show ?thesis by (auto simp only: dest: subsetD)
      qed
    next
      case False
      then have eq: "st' = st" by (simp add: st'_def)
      from ih2 show ?thesis
      proof (elim disjE)
        assume "R = st'"
        with eq show ?thesis by (simp only: simp_thms)
      next
        assume "R = (zero_Item, None)"
        then show ?thesis by (simp only: simp_thms)
      next
        assume "fst R \<in> set (concat (map item_nodes its)) \<and> Identifierref (fst R) = ident \<and>
          snd R = None"
        with rest show ?thesis by (auto simp only: dest: subsetD)
      qed
    qed
    then show ?thesis by (simp only: step)
  qed
qed

lemma findItem_result:
  "findItem its ident = (zero_Item, None) \<or>
   (fst (findItem its ident) \<in> set (concat (map item_nodes its)) \<and>
    Identifierref (fst (findItem its ident)) = ident \<and> snd (findItem its ident) = None)"
  using findItem_loop_result [of "(zero_Item, None)" its ident]
  by (auto simp: findItem_def)

lemma FindItem_loop_result:
  "FindItem_loop (zero_Item, None) tops ident = (zero_Item, None) \<or>
   (fst (FindItem_loop (zero_Item, None) tops ident)
      \<in> set (concat (map (\<lambda>i. concat (map item_nodes (Item_Item i))) tops)) \<and>
    Identifierref (fst (FindItem_loop (zero_Item, None) tops ident)) = ident \<and>
    snd (FindItem_loop (zero_Item, None) tops ident) = None)"
proof (induction tops)
  case Nil
  then show ?case by simp
next
  case (Cons i tops)
  let ?below = "\<lambda>ts. set (concat (map (\<lambda>i. concat (map item_nodes (Item_Item i))) ts))"
  have mono: "?below tops \<subseteq> ?below (i # tops)" and here:
    "set (concat (map item_nodes (Item_Item i))) \<subseteq> ?below (i # tops)"
    by simp_all
  from findItem_result [of "Item_Item i" ident] show ?case
  proof
    assume z: "findItem (Item_Item i) ident = (zero_Item, None)"
    show ?thesis
    proof (cases "Identifierref zero_Item = ident")
      case True
      with z have "FindItem_loop (zero_Item, None) (i # tops) ident = (zero_Item, None)"
        by simp
      then show ?thesis by (rule disjI1)
    next
      case False
      with z have "FindItem_loop (zero_Item, None) (i # tops) ident =
          FindItem_loop (zero_Item, None) tops ident"
        by simp
      then show ?thesis
        using Cons mono by (simp only:) blast
    qed
  next
    assume m: "fst (findItem (Item_Item i) ident) \<in> set (concat (map item_nodes (Item_Item i))) \<and>
      Identifierref (fst (findItem (Item_Item i) ident)) = ident \<and>
      snd (findItem (Item_Item i) ident) = None"
    obtain it where it: "findItem (Item_Item i) ident = (it, None)"
      using m by (cases "findItem (Item_Item i) ident") simp
    with m have "Identifierref it = ident" and mem: "it \<in> set (concat (map item_nodes (Item_Item i)))"
      by simp_all
    with it have r: "FindItem_loop (zero_Item, None) (i # tops) ident = (it, None)"
      by simp
    have b: "it \<in> ?below (i # tops)"
      using mem here by (rule subsetD [rotated])
    show ?thesis
      unfolding r fst_conv snd_conv using b \<open>Identifierref it = ident\<close> by blast
  qed
qed

lemma FindItem_result:
  "snd (FindItem cc ident) = None \<and>
   (fst (FindItem cc ident) = zero_Item \<or>
    fst (FindItem cc ident) \<in> set (compared_items cc) \<and>
    Identifierref (fst (FindItem cc ident)) = ident)"
  using FindItem_loop_result [of "Item_Item (Organization_Item (manifest cc))" ident]
  by (auto simp: FindItem_def compared_items_def)

lemma Resources_loop_step:
  "Resources_loop cd cc acc (r # rs) =
     (case snd (Find cd cc (Identifier r)) of
        Some e \<Rightarrow> (acc, Some e)
      | None \<Rightarrow> Resources_loop cd cc (acc @ [full_resource_of cd cc r]) rs)"
proof -
  obtain fo fe where F: "Find cd cc (Identifier r) = (fo, fe)"
    by (cases "Find cd cc (Identifier r)")
  obtain io ie where I: "FindItem cc (Identifier r) = (io, ie)"
    by (cases "FindItem cc (Identifier r)")
  have "snd (FindItem cc (Identifier r)) = None"
    using FindItem_result [of cc "Identifier r"] by (rule conjunct1)
  with I have ie: "ie = None" by simp
  show ?thesis
    by (cases fe) (simp_all add: F I ie full_resource_of_def)
qed

lemma Resources_loop_stop:
  "snd (Find cd cc (Identifier r)) = Some e \<Longrightarrow>
   Resources_loop cd cc acc (r # rs) = (acc, Some e)"
  by (subst Resources_loop_step) simp

lemma Resources_loop_continue:
  "snd (Find cd cc (Identifier r)) = None \<Longrightarrow>
   Resources_loop cd cc acc (r # rs) =
     Resources_loop cd cc (acc @ [full_resource_of cd cc r]) rs"
  by (subst Resources_loop_step) simp

lemma Resources_loop_prefix:
  "\<exists>n. n \<le> length rs \<and>
     fst (Resources_loop cd cc acc rs) = acc @ map (full_resource_of cd cc) (take n rs) \<and>
     (snd (Resources_loop cd cc acc rs) = None \<longrightarrow> n = length rs)"
proof (induction rs arbitrary: acc)
  case Nil
  then show ?case by simp
next
  case (Cons r rs)
  show ?case
  proof (cases "snd (Find cd cc (Identifier r))")
    case (Some e)
    show ?thesis
      unfolding Resources_loop_stop [OF Some] by (intro exI [of _ 0]) simp
  next
    case None
    from Cons [of "acc @ [full_resource_of cd cc r]"] obtain n where
      n: "n \<le> length rs \<and>
        fst (Resources_loop cd cc (acc @ [full_resource_of cd cc r]) rs) =
           (acc @ [full_resource_of cd cc r]) @ map (full_resource_of cd cc) (take n rs) \<and>
        (snd (Resources_loop cd cc (acc @ [full_resource_of cd cc r]) rs) = None \<longrightarrow>
           n = length rs)" ..
    show ?thesis
      unfolding Resources_loop_continue [OF None] using n
      by (intro exI [of _ "Suc n"]) (simp del: Resources_loop.simps)
  qed
qed

lemma Resources_all_prefix:
  "\<exists>n. n \<le> length (Resources_Resource (manifest cc)) \<and>
     fst (Resources_all cd cc) =
       map (full_resource_of cd cc) (take n (Resources_Resource (manifest cc))) \<and>
     (snd (Resources_all cd cc) = None \<longrightarrow> n = length (Resources_Resource (manifest cc)))"
  using Resources_loop_prefix [of "Resources_Resource (manifest cc)" cd cc "[]"]
  by (simp add: Resources_all_def)

lemma find_distinct_ident:
  "distinct (map Identifier rs) \<Longrightarrow> r \<in> set rs \<Longrightarrow>
   find (\<lambda>x. Identifier x = Identifier r) rs = Some r"
  by (induction rs) auto


lemma ex_Resources_all:
  "Resources_all ex_codec ex_cc =
     ([\<lparr>FullResource_Resource = FResource (ex_resources ! 0), FullResource_Item = zero_Item\<rparr>,
       \<lparr>FullResource_Resource =
          FWebLink \<lparr>WebLink_XMLName = ''webLink'', WebLink_Title = [], URL_Href = []\<rparr>,
        FullResource_Item = Item ''leaf1'' ''r2'' ''A link'' []\<rparr>,
       \<lparr>FullResource_Resource = FResource (ex_resources ! 2), FullResource_Item = zero_Item\<rparr>],
      None)"
  by (simp add: Resources_all_def ex_cc_def cartridge_def ex_resources_def ex_items_def
      Find_def Find_resource_def backing_path_def reader_of_def ex_entries_def io_ReadAll_def
      Find_switch_def topic_types_def weblink_types_def lti_types_def assignment_types_def
      qti_types_def associatedcontent_types_def ex_codec_def FindItem_def findItem_def
      zero_Item_def Let_def)



lemma Find_of_find:
  "find (\<lambda>x. Identifier x = ident) (Resources_Resource (manifest cc)) = Some r \<Longrightarrow>
   Find cd cc ident = Find_resource cd cc r"
  by (simp add: Find_def Find_loop_find)

lemma Resources_loop_fail:
  "k < length rs \<Longrightarrow> \<forall>j<k. snd (Find cd cc (Identifier (rs ! j))) = None \<Longrightarrow>
   snd (Find cd cc (Identifier (rs ! k))) = Some e \<Longrightarrow>
   Resources_loop cd cc acc rs = (acc @ map (full_resource_of cd cc) (take k rs), Some e)"
proof (induction rs arbitrary: acc k)
  case Nil
  then show ?case by simp
next
  case (Cons r rs)
  show ?case
  proof (cases k)
    case 0
    with Cons.prems(3) have "snd (Find cd cc (Identifier r)) = Some e"
      by simp
    then have "Resources_loop cd cc acc (r # rs) = (acc, Some e)"
      by (rule Resources_loop_stop)
    with 0 show ?thesis by simp
  next
    case (Suc k')
    have "0 < k" using Suc by simp
    with Cons.prems(2) [THEN spec, of 0]
    have "snd (Find cd cc (Identifier ((r # rs) ! 0))) = None"
      by (rule mp)
    then have first: "snd (Find cd cc (Identifier r)) = None"
      by simp
    have k': "k' < length rs"
      using Cons.prems(1) Suc by simp
    have before: "\<forall>j<k'. snd (Find cd cc (Identifier (rs ! j))) = None"
    proof (intro allI impI)
      fix j
      assume "j < k'"
      then have "Suc j < k" using Suc by simp
      with Cons.prems(2) [THEN spec, of "Suc j"]
      have "snd (Find cd cc (Identifier ((r # rs) ! Suc j))) = None"
        by (rule mp)
      then show "snd (Find cd cc (Identifier (rs ! j))) = None"
        by simp
    qed
    have at: "snd (Find cd cc (Identifier (rs ! k'))) = Some e"
      using Cons.prems(3) Suc by simp
    have "Resources_loop cd cc acc (r # rs) =
        Resources_loop cd cc (acc @ [full_resource_of cd cc r]) rs"
      using first by (rule Resources_loop_continue)
    also have "\<dots> = ((acc @ [full_resource_of cd cc r]) @
        map (full_resource_of cd cc) (take k' rs), Some e)"
      using k' before at by (rule Cons.IH)
    finally show ?thesis
      using Suc by simp
  qed
qed

lemma full_resource_of_own:
  assumes d: "distinct (map Identifier (Resources_Resource (manifest cc)))"
    and r: "r \<in> set (Resources_Resource (manifest cc))"
  shows "full_resource_of cd cc r =
     \<lparr>FullResource_Resource = fst (Find_resource cd cc r),
      FullResource_Item = fst (FindItem cc (Identifier r))\<rparr>"
proof -
  have "find (\<lambda>x. Identifier x = Identifier r) (Resources_Resource (manifest cc)) = Some r"
    using d r by (rule find_distinct_ident)
  then have "Find cd cc (Identifier r) = Find_resource cd cc r"
    by (rule Find_of_find)
  then show ?thesis
    by (simp add: full_resource_of_def)
qed

lemma Resources_all_fail:
  assumes d: "distinct (map Identifier (Resources_Resource (manifest cc)))"
    and k: "k < length (Resources_Resource (manifest cc))"
    and before: "\<forall>j<k. snd (Find cd cc (Identifier (Resources_Resource (manifest cc) ! j))) = None"
    and at: "snd (Find cd cc (Identifier (Resources_Resource (manifest cc) ! k))) = Some e"
  shows "Resources_all cd cc =
     (map (\<lambda>r. \<lparr>FullResource_Resource = fst (Find_resource cd cc r),
                FullResource_Item = fst (FindItem cc (Identifier r))\<rparr>)
        (take k (Resources_Resource (manifest cc))), Some e)"
proof -
  let ?rs = "Resources_Resource (manifest cc)"
  have "Resources_all cd cc = ([] @ map (full_resource_of cd cc) (take k ?rs), Some e)"
    unfolding Resources_all_def using k before at by (rule Resources_loop_fail)
  moreover have "map (full_resource_of cd cc) (take k ?rs) =
      map (\<lambda>r. \<lparr>FullResource_Resource = fst (Find_resource cd cc r),
                 FullResource_Item = fst (FindItem cc (Identifier r))\<rparr>) (take k ?rs)"
  proof (rule map_cong [OF refl])
    fix r
    assume "r \<in> set (take k ?rs)"
    then have "r \<in> set ?rs" by (rule in_set_takeD)
    with d show "full_resource_of cd cc r =
        \<lparr>FullResource_Resource = fst (Find_resource cd cc r),
         FullResource_Item = fst (FindItem cc (Identifier r))\<rparr>"
      by (rule full_resource_of_own)
  qed
  ultimately show ?thesis by simp
qed

lemma Resources_all_success:
  "distinct (map Identifier (Resources_Resource (manifest cc))) \<longrightarrow>
   snd (Resources_all cd cc) = None \<longrightarrow>
     length (fst (Resources_all cd cc)) = length (Resources_Resource (manifest cc)) \<and>
     fst (Resources_all cd cc) =
       map (\<lambda>r. \<lparr>FullResource_Resource = fst (Find_resource cd cc r),
                  FullResource_Item = fst (FindItem cc (Identifier r))\<rparr>)
         (Resources_Resource (manifest cc))"
proof (intro impI)
  let ?rs = "Resources_Resource (manifest cc)"
  assume d: "distinct (map Identifier ?rs)" and ok: "snd (Resources_all cd cc) = None"
  obtain n where n: "n \<le> length ?rs \<and>
      fst (Resources_all cd cc) = map (full_resource_of cd cc) (take n ?rs) \<and>
      (snd (Resources_all cd cc) = None \<longrightarrow> n = length ?rs)"
    using Resources_all_prefix [of cc cd] ..
  with ok have all: "fst (Resources_all cd cc) = map (full_resource_of cd cc) ?rs"
    by simp
  have own: "full_resource_of cd cc r =
      \<lparr>FullResource_Resource = fst (Find_resource cd cc r),
       FullResource_Item = fst (FindItem cc (Identifier r))\<rparr>" if "r \<in> set ?rs" for r
    using Find_of_find [OF find_distinct_ident [OF d that], of cd]
    by (simp add: full_resource_of_def)
  have "map (full_resource_of cd cc) ?rs =
      map (\<lambda>r. \<lparr>FullResource_Resource = fst (Find_resource cd cc r),
                 FullResource_Item = fst (FindItem cc (Identifier r))\<rparr>) ?rs"
    by (rule map_cong [OF refl]) (rule own)
  with all show "length (fst (Resources_all cd cc)) = length ?rs \<and>
     fst (Resources_all cd cc) =
       map (\<lambda>r. \<lparr>FullResource_Resource = fst (Find_resource cd cc r),
                  FullResource_Item = fst (FindItem cc (Identifier r))\<rparr>) ?rs"
    by simp
qed

text \<open>
  C7, as amended. When the catalog identifiers are pairwise distinct and \<open>Resources\<close> returns
  no error, it returns one entry per catalog resource, in catalog order: the entry of a
  resource holds what \<open>Find\<close> resolves that very resource to, and the single item
  \<open>FindItem\<close> returns for its identifier (the zero item when there is none). When \<open>Find\<close>
  fails for the resource at index \<open>k\<close> and for none before it, \<open>Resources\<close> returns that
  error with exactly the entries of the \<open>k\<close> resources before it.
\<close>

theorem Resources_one_entry_per_resource:
  "(distinct (map Identifier (Resources_Resource (manifest cc))) \<longrightarrow>
    snd (Resources_all cd cc) = None \<longrightarrow>
      length (fst (Resources_all cd cc)) = length (Resources_Resource (manifest cc)) \<and>
      fst (Resources_all cd cc) =
        map (\<lambda>r. \<lparr>FullResource_Resource = fst (Find_resource cd cc r),
                   FullResource_Item = fst (FindItem cc (Identifier r))\<rparr>)
          (Resources_Resource (manifest cc))) \<and>
   (distinct (map Identifier (Resources_Resource (manifest cc))) \<longrightarrow>
    (\<forall>k e. k < length (Resources_Resource (manifest cc)) \<longrightarrow>
       (\<forall>j<k. snd (Find cd cc (Identifier (Resources_Resource (manifest cc) ! j))) = None) \<longrightarrow>
       snd (Find cd cc (Identifier (Resources_Resource (manifest cc) ! k))) = Some e \<longrightarrow>
       Resources_all cd cc =
         (map (\<lambda>r. \<lparr>FullResource_Resource = fst (Find_resource cd cc r),
                    FullResource_Item = fst (FindItem cc (Identifier r))\<rparr>)
            (take k (Resources_Resource (manifest cc))), Some e)))"
proof (rule conjI)
  show "distinct (map Identifier (Resources_Resource (manifest cc))) \<longrightarrow>
    snd (Resources_all cd cc) = None \<longrightarrow>
      length (fst (Resources_all cd cc)) = length (Resources_Resource (manifest cc)) \<and>
      fst (Resources_all cd cc) =
        map (\<lambda>r. \<lparr>FullResource_Resource = fst (Find_resource cd cc r),
                   FullResource_Item = fst (FindItem cc (Identifier r))\<rparr>)
          (Resources_Resource (manifest cc))"
    by (rule Resources_all_success)
next
  show "distinct (map Identifier (Resources_Resource (manifest cc))) \<longrightarrow>
    (\<forall>k e. k < length (Resources_Resource (manifest cc)) \<longrightarrow>
       (\<forall>j<k. snd (Find cd cc (Identifier (Resources_Resource (manifest cc) ! j))) = None) \<longrightarrow>
       snd (Find cd cc (Identifier (Resources_Resource (manifest cc) ! k))) = Some e \<longrightarrow>
       Resources_all cd cc =
         (map (\<lambda>r. \<lparr>FullResource_Resource = fst (Find_resource cd cc r),
                    FullResource_Item = fst (FindItem cc (Identifier r))\<rparr>)
            (take k (Resources_Resource (manifest cc))), Some e))"
    by (intro impI allI) (rule Resources_all_fail)
qed

text \<open>
  C7 at the example cartridge, where no resource fails, and at a catalog of three resources
  whose second one fails: one entry and the error of the second.
\<close>

theorem Resources_one_entry_per_resource_witness:
  "length (fst (Resources_all ex_codec ex_cc)) = 3 \<and>
   map FullResource_Item (fst (Resources_all ex_codec ex_cc)) =
     [zero_Item, Item ''leaf1'' ''r2'' ''A link'' [], zero_Item] \<and>
   Resources_all ex_codec (cartridge partly_failing []) =
     ([\<lparr>FullResource_Resource = FResource (hd partly_failing), FullResource_Item = zero_Item\<rparr>],
      Some (Errorf ''no matching type found: imsfoo_xmlv1p0''))"
proof -
  have rs: "Resources_Resource (manifest ex_cc) = ex_resources"
    by (simp add: ex_cc_def cartridge_def)
  have d: "distinct (map Identifier (Resources_Resource (manifest ex_cc)))"
    by (simp add: rs ex_resources_def)
  have ok: "snd (Resources_all ex_codec ex_cc) = None"
    by (simp add: ex_Resources_all)
  have len: "length ex_resources = 3"
    by (simp add: ex_resources_def)
  note T = Resources_one_entry_per_resource [of ex_cc ex_codec, THEN conjunct1,
      THEN mp, OF d, THEN mp, OF ok, THEN conjunct1]
  then have "length (fst (Resources_all ex_codec ex_cc)) = length ex_resources"
    by (simp only: rs)
  then have a: "length (fst (Resources_all ex_codec ex_cc)) = 3 \<and>
      map FullResource_Item (fst (Resources_all ex_codec ex_cc)) =
        [zero_Item, Item ''leaf1'' ''r2'' ''A link'' [], zero_Item]"
    by (simp add: len ex_Resources_all)
  let ?c = "cartridge partly_failing []"
  have rs': "Resources_Resource (manifest ?c) = partly_failing"
    by (simp add: cartridge_def)
  have d': "distinct (map Identifier (Resources_Resource (manifest ?c)))"
    unfolding rs' by (simp add: partly_failing_def unknown_type_resource_def)
  have k: "1 < length (Resources_Resource (manifest ?c))"
    unfolding rs' by (simp add: partly_failing_def)
  have find0: "Find ex_codec ?c ''r1'' = (FResource (hd partly_failing), None)"
    by (simp add: cartridge_def partly_failing_def unknown_type_resource_def Find_def
        Find_resource_def backing_path_def reader_of_def ex_entries_def io_ReadAll_def
        Find_switch_def topic_types_def Let_def)
  have find1: "Find ex_codec ?c ''u1'' =
      (FResource unknown_type_resource, Some (Errorf ''no matching type found: imsfoo_xmlv1p0''))"
    by (simp add: cartridge_def partly_failing_def unknown_type_resource_def Find_def
        Find_resource_def backing_path_def reader_of_def ex_entries_def io_ReadAll_def
        Find_switch_def topic_types_def weblink_types_def lti_types_def assignment_types_def
        qti_types_def associatedcontent_types_def Let_def)
  have id0: "Identifier (partly_failing ! 0) = ''r1''" and id1: "Identifier (partly_failing ! 1) = ''u1''"
    by (simp_all add: partly_failing_def unknown_type_resource_def)
  have before: "\<forall>j<1. snd (Find ex_codec ?c (Identifier (Resources_Resource (manifest ?c) ! j))) = None"
    unfolding rs' by (simp add: id0 find0)
  have at: "snd (Find ex_codec ?c (Identifier (Resources_Resource (manifest ?c) ! 1))) =
      Some (Errorf ''no matching type found: imsfoo_xmlv1p0'')"
    unfolding rs' id1 by (simp add: find1)
  note F = Resources_one_entry_per_resource [of ?c ex_codec, THEN conjunct2,
      THEN mp, OF d', THEN spec, THEN spec, THEN mp, OF k, THEN mp, OF before, THEN mp, OF at]
  have r0: "Find_resource ex_codec ?c (hd partly_failing) = (FResource (hd partly_failing), None)"
    by (simp add: cartridge_def partly_failing_def Find_resource_def backing_path_def
        reader_of_def ex_entries_def io_ReadAll_def Find_switch_def topic_types_def Let_def)
  have i0: "FindItem ?c ''r1'' = (zero_Item, None)"
    by (simp add: FindItem_def cartridge_def)
  have tk: "take 1 partly_failing = [hd partly_failing]"
    by (simp add: partly_failing_def)
  have hd0: "Identifier (hd partly_failing) = ''r1''"
    by (simp add: partly_failing_def)
  have b: "Resources_all ex_codec ?c =
      ([\<lparr>FullResource_Resource = FResource (hd partly_failing), FullResource_Item = zero_Item\<rparr>],
       Some (Errorf ''no matching type found: imsfoo_xmlv1p0''))"
    unfolding F rs' tk by (simp add: r0 i0 hd0)
  from a b show ?thesis by simp
qed

lemma ex_Find_unknown:
  "Find ex_codec (cartridge [unknown_type_resource] []) ''u1'' =
     (FResource unknown_type_resource, Some (Errorf ''no matching type found: imsfoo_xmlv1p0''))"
  by (simp add: cartridge_def unknown_type_resource_def Find_def Find_resource_def
      backing_path_def reader_of_def ex_entries_def io_ReadAll_def Find_switch_def
      topic_types_def weblink_types_def lti_types_def assignment_types_def qti_types_def
      associatedcontent_types_def Let_def)

text \<open>
  C7 as stated fails: \<open>Resources\<close> stops at the first resource \<open>Find\<close> reports an error
  for and returns the entries built so far, here none for a catalog of one resource.
\<close>

theorem Resources_stops_at_error_counterexample:
  "distinct (map Identifier (Resources_Resource (manifest (cartridge [unknown_type_resource] [])))) \<and>
   length (fst (Resources_all ex_codec (cartridge [unknown_type_resource] []))) \<noteq>
     length (Resources_Resource (manifest (cartridge [unknown_type_resource] [])))"
proof -
  have rs: "Resources_Resource (manifest (cartridge [unknown_type_resource] [])) =
      [unknown_type_resource]"
    by (simp add: cartridge_def)
  have id: "Identifier unknown_type_resource = ''u1''"
    by (simp add: unknown_type_resource_def)
  have "Resources_all ex_codec (cartridge [unknown_type_resource] []) =
      ([], Some (Errorf ''no matching type found: imsfoo_xmlv1p0''))"
    by (simp add: Resources_all_def rs id ex_Find_unknown)
  then show ?thesis
    by (simp add: rs)
qed

section \<open>What \<open>Find\<close> returns for each type tag\<close>

lemma Find_resource_no_path:
  "backing_path r = [] \<Longrightarrow> Find_resource cd cc r = (FResource r, None)"
  by (simp add: Find_resource_def)

lemma Find_resource_open_error:
  "backing_path r \<noteq> [] \<Longrightarrow> Open (IMSCC_Reader cc) (backing_path r) = Inl e \<Longrightarrow>
   Find_resource cd cc r = (FResource r, Some (OpenError e))"
  by (simp add: Find_resource_def)

lemma Find_resource_read_error:
  "backing_path r \<noteq> [] \<Longrightarrow> Open (IMSCC_Reader cc) (backing_path r) = Inr file \<Longrightarrow>
   io_ReadAll file = Inl e \<Longrightarrow> Find_resource cd cc r = (FResource r, Some (ReadError e))"
  by (simp add: Find_resource_def)

lemma Find_resource_read:
  "backing_path r \<noteq> [] \<Longrightarrow> Open (IMSCC_Reader cc) (backing_path r) = Inr file \<Longrightarrow>
   io_ReadAll file = Inr bs \<Longrightarrow> Find_resource cd cc r = Find_switch cd r bs"
  by (simp add: Find_resource_def)

lemma Find_switch_undecoded:
  "Type r \<notin> set decoded_types \<Longrightarrow>
   Find_switch cd r bs =
     (FResource r,
      if Type r = ''webcontent'' \<or> Type r \<in> set associatedcontent_types then None
      else Some (Errorf (''no matching type found: '' @ Type r)))"
  by (simp add: Find_switch_def decoded_types_def)

lemma Find_resource_undecoded_value:
  "Type r \<notin> set decoded_types \<Longrightarrow> fst (Find_resource cd cc r) = FResource r"
  by (simp add: Find_resource_def Let_def Find_switch_undecoded split: sum.splits)

text \<open>
  C4, as amended. For the first catalog resource with the identifier, when its type is none
  of the decoded families, \<open>Find\<close> always returns the raw resource as its value. The error
  is nil when the resource has no backing path. When the backing file opens and reads, the
  error is nil for \<open>webcontent\<close> and the associated-content types, and it is
  "no matching type found" for every other type tag.
\<close>

theorem Find_undecoded_type:
  "find (\<lambda>x. Identifier x = ident) (Resources_Resource (manifest cc)) = Some r \<longrightarrow>
   Type r \<notin> set decoded_types \<longrightarrow>
     fst (Find cd cc ident) = FResource r \<and>
     (backing_path r = [] \<longrightarrow> snd (Find cd cc ident) = None) \<and>
     (\<forall>file bs. backing_path r \<noteq> [] \<longrightarrow>
        Open (IMSCC_Reader cc) (backing_path r) = Inr file \<longrightarrow> io_ReadAll file = Inr bs \<longrightarrow>
        snd (Find cd cc ident) =
          (if Type r = ''webcontent'' \<or> Type r \<in> set associatedcontent_types then None
           else Some (Errorf (''no matching type found: '' @ Type r))))"
proof (intro impI)
  assume f: "find (\<lambda>x. Identifier x = ident) (Resources_Resource (manifest cc)) = Some r"
    and t: "Type r \<notin> set decoded_types"
  have eq: "Find cd cc ident = Find_resource cd cc r"
    using f by (simp add: Find_def Find_loop_find)
  show "fst (Find cd cc ident) = FResource r \<and>
     (backing_path r = [] \<longrightarrow> snd (Find cd cc ident) = None) \<and>
     (\<forall>file bs. backing_path r \<noteq> [] \<longrightarrow>
        Open (IMSCC_Reader cc) (backing_path r) = Inr file \<longrightarrow> io_ReadAll file = Inr bs \<longrightarrow>
        snd (Find cd cc ident) =
          (if Type r = ''webcontent'' \<or> Type r \<in> set associatedcontent_types then None
           else Some (Errorf (''no matching type found: '' @ Type r))))"
    unfolding eq
    by (simp add: Find_resource_undecoded_value [OF t] Find_resource_no_path Find_resource_read
        Find_switch_undecoded [OF t])
qed

text \<open>
  C4 at a resource with an unknown type tag and no file, and at one with an unknown type tag
  whose file is in the archive.
\<close>

theorem Find_undecoded_type_witness:
  "Find ex_codec (cartridge [fileless_resource] []) ''n1'' = (FResource fileless_resource, None) \<and>
   snd (Find ex_codec (cartridge [unknown_type_resource] []) ''u1'') =
     Some (Errorf ''no matching type found: imsfoo_xmlv1p0'')"
proof -
  let ?c1 = "cartridge [fileless_resource] []" and ?c2 = "cartridge [unknown_type_resource] []"
  have f1: "find (\<lambda>x. Identifier x = ''n1'') (Resources_Resource (manifest ?c1)) =
      Some fileless_resource"
    by (simp add: cartridge_def fileless_resource_def)
  have t1: "Type fileless_resource \<notin> set decoded_types"
    by (simp add: fileless_resource_def decoded_types_def topic_types_def weblink_types_def
        assignment_types_def qti_types_def lti_types_def)
  have p1: "backing_path fileless_resource = []"
    by (simp add: backing_path_def fileless_resource_def)
  note T1 = Find_undecoded_type [of "''n1''" ?c1 fileless_resource ex_codec,
      THEN mp, OF f1, THEN mp, OF t1]
  have a1: "fst (Find ex_codec ?c1 ''n1'') = FResource fileless_resource"
    using T1 by (rule conjunct1)
  have a2: "snd (Find ex_codec ?c1 ''n1'') = None"
    using T1 [THEN conjunct2, THEN conjunct1, THEN mp, OF p1] .
  have f2: "find (\<lambda>x. Identifier x = ''u1'') (Resources_Resource (manifest ?c2)) =
      Some unknown_type_resource"
    by (simp add: cartridge_def unknown_type_resource_def)
  have t2: "Type unknown_type_resource \<notin> set decoded_types"
    by (simp add: unknown_type_resource_def decoded_types_def topic_types_def weblink_types_def
        assignment_types_def qti_types_def lti_types_def)
  have p2: "backing_path unknown_type_resource \<noteq> []"
    by (simp add: backing_path_def unknown_type_resource_def)
  have o2: "Open (IMSCC_Reader ?c2) (backing_path unknown_type_resource) =
      Inr (fs_File (Inr ''<html/>''))"
    by (simp add: cartridge_def reader_of_def ex_entries_def backing_path_def
        unknown_type_resource_def)
  have r2: "io_ReadAll (fs_File (Inr ''<html/>'')) = Inr ''<html/>''"
    by (simp add: io_ReadAll_def)
  note T2 = Find_undecoded_type [of "''u1''" ?c2 unknown_type_resource ex_codec,
      THEN mp, OF f2, THEN mp, OF t2]
  have b: "snd (Find ex_codec ?c2 ''u1'') =
      (if Type unknown_type_resource = ''webcontent'' \<or>
          Type unknown_type_resource \<in> set associatedcontent_types then None
       else Some (Errorf (''no matching type found: '' @ Type unknown_type_resource)))"
    using T2 [THEN conjunct2, THEN conjunct2, THEN spec, THEN spec, THEN mp, OF p2,
        THEN mp, OF o2, THEN mp, OF r2] .
  have ty: "Type unknown_type_resource = ''imsfoo_xmlv1p0''"
    by (simp add: unknown_type_resource_def)
  have b': "snd (Find ex_codec ?c2 ''u1'') = Some (Errorf ''no matching type found: imsfoo_xmlv1p0'')"
    unfolding b by (simp add: ty associatedcontent_types_def)
  from a1 a2 b' show ?thesis
    by (simp add: prod_eq_iff)
qed

text \<open>
  C4 as stated fails: a resource whose type tag belongs to no family and whose file is in the
  archive makes \<open>Find\<close> return an error.
\<close>

theorem Find_unknown_type_counterexample:
  "Type unknown_type_resource \<notin> set decoded_types \<and>
   Type unknown_type_resource \<noteq> ''webcontent'' \<and>
   Type unknown_type_resource \<notin> set associatedcontent_types \<and>
   snd (Find ex_codec (cartridge [unknown_type_resource] []) ''u1'') =
     Some (Errorf ''no matching type found: imsfoo_xmlv1p0'')"
proof -
  have ty: "Type unknown_type_resource = ''imsfoo_xmlv1p0''"
    by (simp add: unknown_type_resource_def)
  show ?thesis
    by (simp add: ex_Find_unknown ty decoded_types_def topic_types_def weblink_types_def
        assignment_types_def qti_types_def lti_types_def associatedcontent_types_def)
qed

text \<open>
  C5, as amended. For the first catalog resource with the identifier, when its type is of a
  decoded family and its backing file opens and reads, \<open>Find\<close> returns the document the
  decoder left, typed by the family, and a nil error, whatever the decoder reported: the
  statement does not depend on the decoder's error.
\<close>

theorem Find_decoded_family:
  "find (\<lambda>x. Identifier x = ident) (Resources_Resource (manifest cc)) = Some r \<longrightarrow>
   backing_path r \<noteq> [] \<longrightarrow> Open (IMSCC_Reader cc) (backing_path r) = Inr file \<longrightarrow>
   io_ReadAll file = Inr bs \<longrightarrow>
     (Type r \<in> set topic_types \<longrightarrow>
        Find cd cc ident = (FTopic (fst (Unmarshal_Topic cd bs)), None)) \<and>
     (Type r \<in> set weblink_types \<longrightarrow>
        Find cd cc ident = (FWebLink (fst (Unmarshal_WebLink cd bs)), None)) \<and>
     (Type r \<in> set assignment_types \<longrightarrow>
        Find cd cc ident = (FAssignment (fst (Unmarshal_Assignment cd bs)), None)) \<and>
     (Type r \<in> set qti_types \<longrightarrow>
        Find cd cc ident = (FQuestestinterop (fst (Unmarshal_Questestinterop cd bs)), None)) \<and>
     (Type r \<in> set lti_types \<longrightarrow>
        Find cd cc ident =
          (FCartridgeBasicltiLink (fst (Unmarshal_CartridgeBasicltiLink cd bs)), None))"
proof (intro impI conjI)
  assume f: "find (\<lambda>x. Identifier x = ident) (Resources_Resource (manifest cc)) = Some r"
    and p: "backing_path r \<noteq> []"
    and opn: "Open (IMSCC_Reader cc) (backing_path r) = Inr file"
    and rd: "io_ReadAll file = Inr bs"
  have eq: "Find cd cc ident = Find_switch cd r bs"
    using f Find_resource_read [OF p opn rd] by (simp add: Find_def Find_loop_find)
  show "Find cd cc ident = (FTopic (fst (Unmarshal_Topic cd bs)), None)"
    if "Type r \<in> set topic_types"
    using that by (simp add: eq Find_switch_def)
  show "Find cd cc ident = (FWebLink (fst (Unmarshal_WebLink cd bs)), None)"
    if "Type r \<in> set weblink_types"
    using that by (auto simp: eq Find_switch_def topic_types_def weblink_types_def)
  show "Find cd cc ident = (FAssignment (fst (Unmarshal_Assignment cd bs)), None)"
    if "Type r \<in> set assignment_types"
    using that
    by (auto simp: eq Find_switch_def topic_types_def weblink_types_def assignment_types_def)
  show "Find cd cc ident = (FQuestestinterop (fst (Unmarshal_Questestinterop cd bs)), None)"
    if "Type r \<in> set qti_types"
    using that
    by (auto simp: eq Find_switch_def topic_types_def weblink_types_def assignment_types_def
        qti_types_def)
  show "Find cd cc ident =
      (FCartridgeBasicltiLink (fst (Unmarshal_CartridgeBasicltiLink cd bs)), None)"
    if "Type r \<in> set lti_types"
    using that
    by (auto simp: eq Find_switch_def topic_types_def weblink_types_def assignment_types_def
        qti_types_def lti_types_def)
qed

lemma ex_Find_broken:
  "Find ex_codec (cartridge [broken_weblink] []) ''b1'' =
     (FWebLink \<lparr>WebLink_XMLName = [], WebLink_Title = [], URL_Href = []\<rparr>, None)"
  by (simp add: cartridge_def broken_weblink_def Find_def Find_resource_def
      backing_path_def reader_of_def ex_entries_def io_ReadAll_def Find_switch_def
      topic_types_def weblink_types_def ex_codec_def Let_def)

text \<open>
  C5 at a web link whose backing file is cut short: the decoder reports an error, \<open>Find\<close>
  returns the zero web link and no error.
\<close>

theorem Find_decoded_family_witness:
  "snd (Unmarshal_WebLink ex_codec ''<webLink'') = Some ''decode error'' \<and>
   Find ex_codec (cartridge [broken_weblink] []) ''b1'' =
     (FWebLink \<lparr>WebLink_XMLName = [], WebLink_Title = [], URL_Href = []\<rparr>, None)"
proof -
  let ?c = "cartridge [broken_weblink] []"
  have f: "find (\<lambda>x. Identifier x = ''b1'') (Resources_Resource (manifest ?c)) =
      Some broken_weblink"
    by (simp add: cartridge_def broken_weblink_def)
  have p: "backing_path broken_weblink \<noteq> []"
    by (simp add: backing_path_def broken_weblink_def)
  have opn: "Open (IMSCC_Reader ?c) (backing_path broken_weblink) =
      Inr (fs_File (Inr ''<webLink''))"
    by (simp add: cartridge_def reader_of_def ex_entries_def backing_path_def
        broken_weblink_def)
  have rd: "io_ReadAll (fs_File (Inr ''<webLink'')) = Inr ''<webLink''"
    by (simp add: io_ReadAll_def)
  have ty: "Type broken_weblink \<in> set weblink_types"
    by (simp add: broken_weblink_def weblink_types_def)
  note T = Find_decoded_family [of "''b1''" ?c broken_weblink "fs_File (Inr ''<webLink'')"
      "''<webLink''" ex_codec, THEN mp, OF f, THEN mp, OF p, THEN mp, OF opn, THEN mp, OF rd]
  have "Find ex_codec ?c ''b1'' = (FWebLink (fst (Unmarshal_WebLink ex_codec ''<webLink'')), None)"
    using T [THEN conjunct2, THEN conjunct1, THEN mp, OF ty] .
  then show ?thesis
    by (simp add: ex_codec_def)
qed

text \<open>
  C5 as stated fails: the resource is of the web link family, its file opens, the decoder
  reports an error on its bytes, and \<open>Find\<close> returns a nil error.
\<close>

theorem Find_swallows_decode_error_counterexample:
  "Type broken_weblink \<in> set weblink_types \<and>
   Open (IMSCC_Reader (cartridge [broken_weblink] [])) ''bad.xml'' =
     Inr (fs_File (Inr ''<webLink'')) \<and>
   snd (Unmarshal_WebLink ex_codec ''<webLink'') = Some ''decode error'' \<and>
   snd (Find ex_codec (cartridge [broken_weblink] []) ''b1'') = None"
proof -
  have ty: "Type broken_weblink \<in> set weblink_types"
    by (simp add: broken_weblink_def weblink_types_def)
  have opn: "Open (IMSCC_Reader (cartridge [broken_weblink] [])) ''bad.xml'' =
      Inr (fs_File (Inr ''<webLink''))"
    by (simp add: cartridge_def reader_of_def ex_entries_def)
  have dec: "snd (Unmarshal_WebLink ex_codec ''<webLink'') = Some ''decode error''"
    by (simp add: ex_codec_def)
  from ty opn dec show ?thesis
    by (simp add: ex_Find_broken)
qed

section \<open>Properties of \<open>Load\<close>\<close>

lemma manifest_path_none:
  "\<forall>n \<in> set ns. \<not> sublist ''imsmanifest.xml'' n \<Longrightarrow> manifest_path ns = []"
  by (induction ns) (simp_all add: strings_Contains_sublist)

lemma manifest_path_find:
  "find (\<lambda>n. sublist ''imsmanifest.xml'' n) ns = Some p \<Longrightarrow> manifest_path ns = p"
  by (induction ns) (simp_all add: strings_Contains_sublist split: if_splits)

lemma Load_unfold:
  "OpenReader cd path = Inr rd \<Longrightarrow>
   Load cd path =
     (\<lparr>IMSCC_Reader = rd, Path = path,
        manifest = fst (parseManifest cd \<lparr>IMSCC_Reader = rd, Path = path, manifest = zero_Manifest\<rparr>)\<rparr>,
      snd (parseManifest cd \<lparr>IMSCC_Reader = rd, Path = path, manifest = zero_Manifest\<rparr>))"
  by (simp add: Load_def Let_def)

text \<open>
  C8, as amended. When the archive opens: if no entry name contains \<open>imsmanifest.xml\<close>,
  \<open>Load\<close> opens the empty path and returns the reader's error for it; if the first entry
  whose name contains \<open>imsmanifest.xml\<close> opens and reads, \<open>Load\<close> returns no error and the
  manifest the decoder left, whatever the decoder reported.
\<close>

theorem Load_errors:
  "OpenReader cd path = Inr rd \<longrightarrow>
     ((\<forall>n \<in> set (Reader_File rd). \<not> sublist ''imsmanifest.xml'' n) \<longrightarrow>
        (\<forall>e. Open rd [] = Inl e \<longrightarrow> snd (Load cd path) = Some (OpenError e))) \<and>
     (\<forall>p file bs. find (\<lambda>n. sublist ''imsmanifest.xml'' n) (Reader_File rd) = Some p \<longrightarrow>
        Open rd p = Inr file \<longrightarrow> io_ReadAll file = Inr bs \<longrightarrow>
        snd (Load cd path) = None \<and>
        manifest (fst (Load cd path)) = fst (Unmarshal_Manifest cd bs))"
proof (intro impI conjI allI)
  assume o: "OpenReader cd path = Inr rd"
  {
    fix e
    assume "\<forall>n \<in> set (Reader_File rd). \<not> sublist ''imsmanifest.xml'' n"
      and "Open rd [] = Inl e"
    then show "snd (Load cd path) = Some (OpenError e)"
      by (simp add: Load_unfold [OF o] parseManifest_def manifest_path_none)
  }
  {
    fix p fl bs
    assume "find (\<lambda>n. sublist ''imsmanifest.xml'' n) (Reader_File rd) = Some p"
      and "Open rd p = Inr fl" and "io_ReadAll fl = Inr bs"
    then show "snd (Load cd path) = None"
      and "manifest (fst (Load cd path)) = fst (Unmarshal_Manifest cd bs)"
      by (simp_all add: Load_unfold [OF o] parseManifest_def manifest_path_find)
  }
qed

lemma ex_Load_broken: "snd (Load ex_codec ''broken.imscc'') = None"
  by (simp add: Load_def Let_def parseManifest_def ex_codec_def reader_of_def io_ReadAll_def)

text \<open>
  C8 at an archive with no entries and at the example archive, whose manifest lies under a
  directory.
\<close>

theorem Load_errors_witness:
  "snd (Load ex_codec ''empty.imscc'') = Some (OpenError ''file does not exist'') \<and>
   snd (Load ex_codec ''course.imscc'') = None \<and>
   manifest (fst (Load ex_codec ''course.imscc'')) = ex_manifest"
proof -
  have o1: "OpenReader ex_codec ''empty.imscc'' = Inr (reader_of [])"
    by (simp add: ex_codec_def)
  have none: "\<forall>n \<in> set (Reader_File (reader_of [])). \<not> sublist ''imsmanifest.xml'' n"
    by (simp add: reader_of_def)
  have e1: "Open (reader_of []) [] = Inl ''file does not exist''"
    by (simp add: reader_of_def)
  note T1 = Load_errors [of ex_codec "''empty.imscc''" "reader_of []", THEN mp, OF o1]
  have a: "snd (Load ex_codec ''empty.imscc'') = Some (OpenError ''file does not exist'')"
    using T1 [THEN conjunct1, THEN mp, OF none, THEN spec, THEN mp, OF e1] .
  have o2: "OpenReader ex_codec ''course.imscc'' = Inr (reader_of ex_entries)"
    by (simp add: ex_codec_def)
  have pre: "prefix ''imsmanifest.xml'' ''imsmanifest.xml''"
    by simp
  have "sublist ''imsmanifest.xml'' (''course/'' @ ''imsmanifest.xml'' @ [])"
    by (rule sublist_appendI)
  then have sub: "sublist ''imsmanifest.xml'' ''course/imsmanifest.xml''"
    by simp
  have f2: "find (\<lambda>n. sublist ''imsmanifest.xml'' n) (Reader_File (reader_of ex_entries)) =
      Some ''course/imsmanifest.xml''"
    using sub by (simp add: reader_of_def ex_entries_def)
  have opn: "Open (reader_of ex_entries) ''course/imsmanifest.xml'' =
      Inr (fs_File (Inr ''<manifest/>''))"
    by (simp add: reader_of_def ex_entries_def)
  have rd: "io_ReadAll (fs_File (Inr ''<manifest/>'')) = Inr ''<manifest/>''"
    by (simp add: io_ReadAll_def)
  note T2 = Load_errors [of ex_codec "''course.imscc''" "reader_of ex_entries", THEN mp, OF o2]
  have b: "snd (Load ex_codec ''course.imscc'') = None \<and>
      manifest (fst (Load ex_codec ''course.imscc'')) =
        fst (Unmarshal_Manifest ex_codec ''<manifest/>'')"
    using T2 [THEN conjunct2, THEN spec, THEN spec, THEN spec, THEN mp, OF f2,
        THEN mp, OF opn, THEN mp, OF rd] .
  have dec: "fst (Unmarshal_Manifest ex_codec ''<manifest/>'') = ex_manifest"
    by (simp add: ex_codec_def)
  from a b dec show ?thesis
    by simp
qed

text \<open>
  C8 as stated fails: the manifest entry is found, the decoder reports an error on its bytes,
  and \<open>Load\<close> returns a nil error.
\<close>

theorem Load_ignores_malformed_manifest_counterexample:
  "OpenReader ex_codec ''broken.imscc'' = Inr (reader_of [(''imsmanifest.xml'', ''<manifest'')]) \<and>
   snd (Unmarshal_Manifest ex_codec ''<manifest'') = Some ''decode error'' \<and>
   snd (Load ex_codec ''broken.imscc'') = None"
proof -
  have "OpenReader ex_codec ''broken.imscc'' =
      Inr (reader_of [(''imsmanifest.xml'', ''<manifest'')])"
    by (simp add: ex_codec_def)
  moreover have "snd (Unmarshal_Manifest ex_codec ''<manifest'') = Some ''decode error''"
    by (simp add: ex_codec_def)
  ultimately show ?thesis
    using ex_Load_broken by simp
qed

section \<open>The file \<open>Find\<close> opens, \<open>FindFile\<close> and the listers\<close>

lemma file_path_loop_last:
  "file_path_loop p fs = (if fs = [] then p else File_Href (last fs))"
  by (induction fs arbitrary: p) simp_all

lemma backing_path_last_file:
  "Href r = [] \<Longrightarrow> File r \<noteq> [] \<Longrightarrow> backing_path r = File_Href (last (File r))"
  by (simp add: backing_path_def file_path_loop_last)

text \<open>
  C3 at a web link with no \<open>href\<close> that lists \<open>wl.xml\<close> and then \<open>wl.html\<close>: the backing
  path is the last file, so \<open>Find\<close> decodes the HTML companion (the zero web link) and not
  the XML document listed first.
\<close>

theorem Find_takes_last_file:
  "File two_file_weblink = [\<lparr>File_Href = ''wl.xml''\<rparr>, \<lparr>File_Href = ''wl.html''\<rparr>] \<and>
   backing_path two_file_weblink = ''wl.html'' \<and>
   Find ex_codec (cartridge [two_file_weblink] []) ''wl'' =
     (FWebLink \<lparr>WebLink_XMLName = [], WebLink_Title = [], URL_Href = []\<rparr>, None) \<and>
   fst (Unmarshal_WebLink ex_codec ''<webLink/>'') =
     \<lparr>WebLink_XMLName = ''webLink'', WebLink_Title = [], URL_Href = []\<rparr>"
  by (simp add: cartridge_def two_file_weblink_def Find_def Find_resource_def
      backing_path_def reader_of_def ex_entries_def io_ReadAll_def Find_switch_def
      topic_types_def weblink_types_def ex_codec_def Let_def)

text \<open>
  C6 at a catalog resource with no \<open><file>\<close> entry: \<open>FindFile\<close> indexes the empty list and
  panics, returning neither a file nor an error.
\<close>

theorem FindFile_panics_on_empty_file_list:
  "File (ex_resources ! 2) = [] \<and>
   FindFile ex_cc ''r3'' = Panic ''index out of range [0] with length 0''"
  by (simp add: FindFile_def ex_cc_def cartridge_def ex_resources_def)

text \<open>
  C9 at a web link resource that lists its XML document and an HTML companion: \<open>Weblinks\<close>
  returns both decoded values, the second with an empty root element name.
\<close>

theorem Weblinks_keeps_other_roots:
  "Weblinks ex_codec (cartridge [two_file_weblink] []) =
     ([\<lparr>WebLink_XMLName = ''webLink'', WebLink_Title = [], URL_Href = []\<rparr>,
       \<lparr>WebLink_XMLName = [], WebLink_Title = [], URL_Href = []\<rparr>], None)"
  by (simp add: Weblinks_def lister_def findResourcesByType_def cartridge_def
      two_file_weblink_def digit_class_def is_digit_def reader_of_def ex_entries_def
      io_ReadAll_def ex_codec_def)

end
